theory Spec2Isabelle
  imports Main "HOL-Library.Word"
begin

section \<open>The dashboard\<close>

text \<open>
  A signal as the dashboard receives it from \<open>/api/data\<close>. The type declaration
  \<open>SignalData\<close> is imported by the components; the fields are the ones they read.
\<close>

record SignalData =
  timestamp :: string
  type :: string
  name_address :: string
  signal_strength :: string
  additional_info :: string

datatype js_error = TypeError

text \<open>What a DOM element's \<open>textContent\<close> was assigned: a number or a string.\<close>

datatype content = Number int | Text string

text \<open>
  Reading a JavaScript array: an index outside the array gives \<open>undefined\<close>, which is
  \<open>None\<close> here. Reading a property of \<open>undefined\<close> throws a \<open>TypeError\<close>.
\<close>

definition js_index :: "'a list \<Rightarrow> int \<Rightarrow> 'a option" where
  "js_index xs i = (if 0 \<le> i \<and> i < int (length xs) then Some (xs ! nat i) else None)"

text \<open>
  The state the two versions of the script \<open>app.js\<close> work on: the closure variables
  \<open>signalData\<close> (one version) and \<open>totalSignals\<close> (the other), the text of the two
  elements, and the indices at which the signal array has been read, in order.
\<close>

record page =
  signalData :: "SignalData list"
  totalSignals :: int
  totalSignalsEl :: content
  lastSignalTimeEl :: content
  reads :: "int list"

text \<open>\<open>updateSignalStats(data)\<close>, the version that is passed the fetched list.\<close>

definition updateSignalStats :: "SignalData list \<Rightarrow> page \<Rightarrow> js_error + page" where
  "updateSignalStats data d =
     (let d = d\<lparr>totalSignals := int (length data)\<rparr>;
          d = d\<lparr>totalSignalsEl := Number (totalSignals d)\<rparr>
      in if totalSignals d > 0
         then (let i = int (length data) - 1; d = d\<lparr>reads := reads d @ [i]\<rparr>
               in case js_index data i of
                    None \<Rightarrow> Inl TypeError
                  | Some signal \<Rightarrow> Inr (d\<lparr>lastSignalTimeEl := Text (timestamp signal)\<rparr>))
         else Inr (d\<lparr>lastSignalTimeEl := Text ''N/A''\<rparr>))"

text \<open>\<open>updateSignalStats()\<close>, the version that reads the closure variable.\<close>

definition updateSignalStats_closure :: "page \<Rightarrow> js_error + page" where
  "updateSignalStats_closure d =
     (let d = d\<lparr>totalSignalsEl := Number (int (length (signalData d)))\<rparr>
      in if int (length (signalData d)) > 0
         then (let i = int (length (signalData d)) - 1; d = d\<lparr>reads := reads d @ [i]\<rparr>
               in case js_index (signalData d) i of
                    None \<Rightarrow> Inl TypeError
                  | Some signal \<Rightarrow> Inr (d\<lparr>lastSignalTimeEl := Text (timestamp signal)\<rparr>))
         else Inr (d\<lparr>lastSignalTimeEl := Text ''N/A''\<rparr>))"

text \<open>
  \<open>v || d\<close> on a count that may be \<open>undefined\<close>: \<open>undefined\<close> and \<open>0\<close> are falsy and
  give \<open>d\<close>.
\<close>

definition js_or :: "nat option \<Rightarrow> nat \<Rightarrow> nat" where
  "js_or v d = (case v of None \<Rightarrow> d | Some n \<Rightarrow> if n = 0 then d else n)"

text \<open>The three numbers the component \<open>SignalStats\<close> renders, one per card.\<close>

record stats_cards =
  bluetooth_signals :: nat
  wifi_signals :: nat
  adsb_signals :: nat

text \<open>
  \<open>signalData?.filter(s => s.type === T).length || 0\<close>: the optional chain gives
  \<open>undefined\<close> when \<open>signalData\<close> is \<open>undefined\<close>.
\<close>

definition SignalStats :: "SignalData list option \<Rightarrow> stats_cards" where
  "SignalStats signalData' =
     \<lparr> bluetooth_signals =
         js_or (map_option (\<lambda>xs. length (filter (\<lambda>s. type s = ''Bluetooth'') xs)) signalData') 0,
       wifi_signals =
         js_or (map_option (\<lambda>xs. length (filter (\<lambda>s. type s = ''Wi-Fi'') xs)) signalData') 0,
       adsb_signals =
         js_or (map_option (\<lambda>xs. length (filter (\<lambda>s. type s = ''ADS-B'') xs)) signalData') 0 \<rparr>"

text \<open>Sample data for concrete evaluation.\<close>

definition blank_page :: page where
  "blank_page =
     \<lparr> signalData = [], totalSignals = 0, totalSignalsEl = Text [],
       lastSignalTimeEl = Text [], reads = [] \<rparr>"

definition demo_signals :: "SignalData list" where
  "demo_signals =
     [ \<lparr> timestamp = ''2025-02-03 10:00:00'', type = ''Wi-Fi'', name_address = ''aa:bb'',
         signal_strength = ''-40'', additional_info = [] \<rparr>,
       \<lparr> timestamp = ''2025-02-03 10:00:01'', type = ''Bluetooth'', name_address = ''cc:dd'',
         signal_strength = ''-55'', additional_info = [] \<rparr> ]"

section \<open>The packet of the custom transmission protocol\<close>

text \<open>
  The packet is the dictionary built by the packet-creation pseudocode of the protocol
  README (section 8.C.1). The pseudocode is Python, so the numeric entries are unbounded
  integers; the two variable-length entries are byte strings.
\<close>

type_synonym byte = "8 word"

record packet =
  protocol_version :: int
  packet_id :: int
  source_node_id :: int
  dest_node_id :: int
  timestamp :: int
  position_data :: int
  signal_type :: int
  signal_strength :: int
  protocol :: int
  signal_info_length :: int
  signal_info :: "byte list"
  strength_over_time_length :: int
  strength_over_time :: "byte list"
  speed_direction :: int
  packet_life_counter :: int
  checksum :: int

text \<open>
  The pseudocode calls helpers of the capture layer, the GPS and the radio that the README
  names but does not define. They are parameters of the model: one record holds what each
  of them answers on the node at the moment of the call.
\<close>

record node_env =
  generate_id :: int
  NODE_ID :: int
  get_gps_time :: int
  get_compressed_position :: int
  SIGNAL_TYPE_WIFI :: int
  encode_signal_type :: "int \<Rightarrow> int"
  measure_rssi :: int
  compress_rssi :: "int \<Rightarrow> int"
  PROTOCOL_80211N :: int
  encode_protocol :: "int \<Rightarrow> int"
  compress_signal_info :: "int \<Rightarrow> int \<Rightarrow> byte list"
  get_rssi_timeseries :: "int list"
  compress_rssi_timeseries :: "int list \<Rightarrow> byte list"
  calculate_speed_direction :: "int \<times> int"
  encode_speed_direction :: "int \<times> int \<Rightarrow> int"
  compute_checksum :: int
  signal_matches :: "byte list \<Rightarrow> bool"
  update_compressed_position :: int

text \<open>
  The two outputs of a node: what it handed to \<open>broadcast_packet\<close> and what it handed to
  \<open>send_to_controller\<close>, oldest first. The pseudocode keeps no other state.
\<close>

record network =
  broadcast_log :: "packet list"
  controller_log :: "packet list"

definition broadcast_packet :: "packet \<Rightarrow> network \<Rightarrow> network" where
  "broadcast_packet p s = s\<lparr>broadcast_log := broadcast_log s @ [p]\<rparr>"

definition send_to_controller :: "packet \<Rightarrow> network \<Rightarrow> network" where
  "send_to_controller p s = s\<lparr>controller_log := controller_log s @ [p]\<rparr>"

subsection \<open>Packet creation\<close>

definition build_packet :: "node_env \<Rightarrow> packet" where
  "build_packet env =
     \<lparr> protocol_version = 1,
       packet_id = generate_id env,
       source_node_id = NODE_ID env,
       dest_node_id = 0xFFFF,
       timestamp = get_gps_time env,
       position_data = get_compressed_position env,
       signal_type = encode_signal_type env (SIGNAL_TYPE_WIFI env),
       signal_strength = compress_rssi env (measure_rssi env),
       protocol = encode_protocol env (PROTOCOL_80211N env),
       signal_info_length = int (length (compress_signal_info env 2412 1)),
       signal_info = compress_signal_info env 2412 1,
       strength_over_time_length =
         int (length (compress_rssi_timeseries env (get_rssi_timeseries env))),
       strength_over_time = compress_rssi_timeseries env (get_rssi_timeseries env),
       speed_direction = encode_speed_direction env (calculate_speed_direction env),
       packet_life_counter = 5,
       checksum = compute_checksum env \<rparr>"

definition packet_creation :: "node_env \<Rightarrow> network \<Rightarrow> network" where
  "packet_creation env s = broadcast_packet (build_packet env) s"

subsection \<open>Packet handling\<close>

definition update_and_forward_packet :: "node_env \<Rightarrow> packet \<Rightarrow> network \<Rightarrow> network" where
  "update_and_forward_packet env packet s =
     (if signal_matches env (signal_info packet)
      then broadcast_packet
             (packet\<lparr>position_data := update_compressed_position env,
                     signal_strength :=
                       max (signal_strength packet) (compress_rssi env (measure_rssi env))\<rparr>) s
      else broadcast_packet packet s)"

definition receive_packet :: "node_env \<Rightarrow> packet \<Rightarrow> network \<Rightarrow> network" where
  "receive_packet env packet s =
     (let packet = packet\<lparr>packet_life_counter := packet_life_counter packet - 1\<rparr>
      in if packet_life_counter packet > 0
         then update_and_forward_packet env packet s
         else send_to_controller packet s)"

text \<open>
  A node handles one event at a time: a local detection, for which it creates a packet, or
  a packet arriving from a peer. Each event carries the answers of the node's helpers at
  that moment.
\<close>

datatype event = Detection node_env | Arrival node_env packet

fun node_step :: "event \<Rightarrow> network \<Rightarrow> network" where
  "node_step (Detection env) s = packet_creation env s"
| "node_step (Arrival env p) s = receive_packet env p s"

definition run_node :: "event list \<Rightarrow> network \<Rightarrow> network" where
  "run_node es s = fold node_step es s"

definition idle :: network where
  "idle = \<lparr>broadcast_log = [], controller_log = []\<rparr>"

subsection \<open>The packet codec\<close>

text \<open>
  Modelled from the spec: the codec (\<open>encode\<close>, \<open>decode\<close> and the three errors of
  \<open>decode\<close>) is not part of the source; the README gives only the field table. This is
  the error taxonomy of \<open>decode\<close> as the specification names it.
\<close>

datatype decode_error = ChecksumMismatch | TruncatedPacket | UnsupportedVersion

text \<open>
  Modelled from the spec: a fixed-width field of \<open>n\<close> bytes. The byte order is not given;
  the most significant byte is written first.
\<close>

fun be_bytes :: "nat \<Rightarrow> int \<Rightarrow> byte list" where
  "be_bytes 0 v = []"
| "be_bytes (Suc n) v = be_bytes n (v div 256) @ [word_of_int v]"

text \<open>Modelled from the spec: the value of a fixed-width field, read back.\<close>

definition be_int :: "byte list \<Rightarrow> int" where
  "be_int bs = foldl (\<lambda>a b. a * 256 + uint b) 0 bs"

text \<open>Modelled from the spec: a value that a field of \<open>n\<close> bytes can hold.\<close>

definition fits :: "nat \<Rightarrow> int \<Rightarrow> bool" where
  "fits n v = (0 \<le> v \<and> v < 256 ^ n)"

text \<open>
  Modelled from the spec: the fields in the order and the widths of the bit-exact layout
  (protocol version 8 bits, packet id 32, source and destination node 16 each, timestamp
  64, position 128, signal type, signal strength and protocol 8 each, the two
  variable fields each behind an 8-bit length, speed and direction 16, packet life
  counter 8). These are the bytes the checksum is computed over.
\<close>

definition body_bytes :: "packet \<Rightarrow> byte list" where
  "body_bytes p =
     be_bytes 1 (protocol_version p) @ be_bytes 4 (packet_id p)
     @ be_bytes 2 (source_node_id p) @ be_bytes 2 (dest_node_id p)
     @ be_bytes 8 (timestamp p) @ be_bytes 16 (position_data p)
     @ be_bytes 1 (signal_type p) @ be_bytes 1 (signal_strength p) @ be_bytes 1 (protocol p)
     @ be_bytes 1 (int (length (signal_info p))) @ signal_info p
     @ be_bytes 1 (int (length (strength_over_time p))) @ strength_over_time p
     @ be_bytes 2 (speed_direction p) @ be_bytes 1 (packet_life_counter p)"

text \<open>
  Modelled from the spec: \<open>encode\<close> writes the fixed-width header fields, the
  length-prefixed variable fields, then computes and appends a 16-bit checksum over the
  preceding bytes. The checksum algorithm is not given: it is the parameter \<open>cks\<close>.
\<close>

definition encode :: "(byte list \<Rightarrow> 16 word) \<Rightarrow> packet \<Rightarrow> byte list" where
  "encode cks p = body_bytes p @ be_bytes 2 (uint (cks (body_bytes p)))"

text \<open>
  Modelled from the spec: reading a field with an explicit bounds check, never past the
  end of the buffer; the bytes of a variable field, and the value of a fixed-width one.
\<close>

definition take_bytes :: "nat \<Rightarrow> byte list \<Rightarrow> decode_error + (byte list \<times> byte list)" where
  "take_bytes n bs = (if length bs < n then Inl TruncatedPacket else Inr (take n bs, drop n bs))"

definition take_int :: "nat \<Rightarrow> byte list \<Rightarrow> decode_error + (int \<times> byte list)" where
  "take_int n bs =
     (if length bs < n then Inl TruncatedPacket else Inr (be_int (take n bs), drop n bs))"

text \<open>Modelled from the spec: the first failure ends the parse.\<close>

fun and_then :: "decode_error + 'a \<Rightarrow> ('a \<Rightarrow> decode_error + 'b) \<Rightarrow> decode_error + 'b" where
  "and_then (Inl e) f = Inl e"
| "and_then (Inr x) f = f x"

text \<open>
  Modelled from the spec: \<open>decode\<close> re-parses every field with its bounds check, then
  recomputes the checksum over the bytes before the checksum field and compares. The
  supported version is 1, the one packet creation writes.
\<close>

definition decode :: "(byte list \<Rightarrow> 16 word) \<Rightarrow> byte list \<Rightarrow> decode_error + packet" where
  "decode cks bs =
     and_then (take_int 1 bs) (\<lambda>(version, r).
     if version \<noteq> 1 then Inl UnsupportedVersion else
     and_then (take_int 4 r) (\<lambda>(pid, r).
     and_then (take_int 2 r) (\<lambda>(src, r).
     and_then (take_int 2 r) (\<lambda>(dst, r).
     and_then (take_int 8 r) (\<lambda>(ts, r).
     and_then (take_int 16 r) (\<lambda>(pos, r).
     and_then (take_int 1 r) (\<lambda>(sty, r).
     and_then (take_int 1 r) (\<lambda>(str, r).
     and_then (take_int 1 r) (\<lambda>(pro, r).
     and_then (take_int 1 r) (\<lambda>(ilen, r).
     and_then (take_bytes (nat ilen) r) (\<lambda>(info, r).
     and_then (take_int 1 r) (\<lambda>(slen, r).
     and_then (take_bytes (nat slen) r) (\<lambda>(sot, r).
     and_then (take_int 2 r) (\<lambda>(spd, r).
     and_then (take_int 1 r) (\<lambda>(ttl, r).
     and_then (take_int 2 r) (\<lambda>(chk, rest).
     if chk \<noteq> uint (cks (take (length bs - length r) bs)) then Inl ChecksumMismatch
     else Inr \<lparr> protocol_version = version, packet_id = pid, source_node_id = src,
                dest_node_id = dst, timestamp = ts, position_data = pos, signal_type = sty,
                signal_strength = str, protocol = pro, signal_info_length = ilen,
                signal_info = info, strength_over_time_length = slen,
                strength_over_time = sot, speed_direction = spd,
                packet_life_counter = ttl, checksum = chk \<rparr>))))))))))))))))"

text \<open>
  Modelled from the spec: a valid packet. Every field fits its width, the version is the
  supported one, each length entry is the length of its field, and the checksum validates
  the payload.
\<close>

definition valid_packet :: "(byte list \<Rightarrow> 16 word) \<Rightarrow> packet \<Rightarrow> bool" where
  "valid_packet cks p =
     (protocol_version p = 1 \<and> fits 4 (packet_id p)
      \<and> fits 2 (source_node_id p) \<and> fits 2 (dest_node_id p)
      \<and> fits 8 (timestamp p) \<and> fits 16 (position_data p)
      \<and> fits 1 (signal_type p) \<and> fits 1 (signal_strength p) \<and> fits 1 (protocol p)
      \<and> signal_info_length p = int (length (signal_info p)) \<and> fits 1 (signal_info_length p)
      \<and> strength_over_time_length p = int (length (strength_over_time p))
      \<and> fits 1 (strength_over_time_length p)
      \<and> fits 2 (speed_direction p) \<and> fits 1 (packet_life_counter p)
      \<and> checksum p = uint (cks (body_bytes p)))"

subsection \<open>Sample data for concrete evaluation\<close>

text \<open>A checksum to run the codec with: the sum of the bytes, modulo \<open>2 ^ 16\<close>.\<close>

definition sum_checksum :: "byte list \<Rightarrow> 16 word" where
  "sum_checksum bs = sum_list (map ucast bs)"

text \<open>
  A node that has observed the signal of every packet it receives, at strength 10 and at
  its own position 7.
\<close>

definition demo_env :: node_env where
  "demo_env =
     \<lparr> generate_id = 1, NODE_ID = 2, get_gps_time = 0, get_compressed_position = 7,
       SIGNAL_TYPE_WIFI = 1, encode_signal_type = (\<lambda>t. t),
       measure_rssi = 10, compress_rssi = (\<lambda>r. r),
       PROTOCOL_80211N = 1, encode_protocol = (\<lambda>t. t),
       compress_signal_info = (\<lambda>f c. [word_of_int f, word_of_int c]),
       get_rssi_timeseries = [10], compress_rssi_timeseries = map word_of_int,
       calculate_speed_direction = (0, 0), encode_speed_direction = fst,
       compute_checksum = 0,
       signal_matches = (\<lambda>i. True),
       update_compressed_position = 7 \<rparr>"

text \<open>A packet of node 1, observed at strength 200 at position 1000, with a ttl of 5.\<close>

definition demo_packet :: packet where
  "demo_packet =
     \<lparr> protocol_version = 1, packet_id = 1, source_node_id = 1, dest_node_id = 0xFFFF,
       timestamp = 0, position_data = 1000, signal_type = 1, signal_strength = 200,
       protocol = 1, signal_info_length = 2, signal_info = [108, 1],
       strength_over_time_length = 1, strength_over_time = [200],
       speed_direction = 0, packet_life_counter = 5, checksum = 1267 \<rparr>"


section \<open>Properties of the node relay\<close>

lemmas relay_defs = receive_packet_def update_and_forward_packet_def broadcast_packet_def
  send_to_controller_def

text \<open>
  C8. For every local detection, the packet the node builds has its packet life counter
  (ttl) set to 5 and its destination set to the broadcast sentinel 0xFFFF, which is the
  16-bit word of all ones, and the node broadcasts exactly this packet: it is appended to
  the broadcasts and nothing is sent to the controller.
\<close>

theorem packet_creation_ttl_broadcast:
  "packet_life_counter (build_packet env) = 5
   \<and> dest_node_id (build_packet env) = 0xFFFF
   \<and> (word_of_int (dest_node_id (build_packet env)) :: 16 word) = - 1
   \<and> node_step (Detection env) s = broadcast_packet (build_packet env) s
   \<and> broadcast_log (node_step (Detection env) s) = broadcast_log s @ [build_packet env]
   \<and> controller_log (node_step (Detection env) s) = controller_log s"
  by (simp add: build_packet_def packet_creation_def broadcast_packet_def)

text \<open>
  C1, as the claim words it, fails: a packet received with a ttl of 1 has a decremented ttl
  of 0, and the node does not drop it. It sends it to the controller.
\<close>

theorem receive_ttl_zero_delivered:
  "controller_log (receive_packet demo_env (demo_packet\<lparr>packet_life_counter := 1\<rparr>) idle)
     = [demo_packet\<lparr>packet_life_counter := 0\<rparr>]"
  by (simp add: relay_defs idle_def demo_packet_def)

text \<open>
  C1, amended. For every packet a node receives, after the decrement of the ttl by 1: if
  the decremented ttl is 0 or less, the packet is not dropped; the node delivers it,
  with the decremented ttl, to the controller and does not broadcast it.
\<close>

theorem receive_expired_delivered:
  "packet_life_counter p - 1 \<le> 0 \<Longrightarrow>
     receive_packet env p s
       = send_to_controller (p\<lparr>packet_life_counter := packet_life_counter p - 1\<rparr>) s
     \<and> controller_log (receive_packet env p s)
       = controller_log s @ [p\<lparr>packet_life_counter := packet_life_counter p - 1\<rparr>]
     \<and> broadcast_log (receive_packet env p s) = broadcast_log s"
  by (simp add: relay_defs Let_def)

text \<open>C1, amended, at a packet received with a ttl of 1.\<close>

theorem receive_expired_delivered_witness:
  "packet_life_counter (demo_packet\<lparr>packet_life_counter := 1\<rparr>) - 1 \<le> 0
   \<and> controller_log (receive_packet demo_env (demo_packet\<lparr>packet_life_counter := 1\<rparr>) idle)
       = [demo_packet\<lparr>packet_life_counter := 0\<rparr>]
   \<and> broadcast_log (receive_packet demo_env (demo_packet\<lparr>packet_life_counter := 1\<rparr>) idle) = []"
  using receive_expired_delivered [of "demo_packet\<lparr>packet_life_counter := 1\<rparr>" demo_env idle]
  by (simp add: idle_def demo_packet_def send_to_controller_def)

text \<open>
  The final hop. The README's prose sends a packet to the controller when its counter is
  decremented to 1; the pseudocode compares the counter with 0, so a packet received with
  a ttl of 2 is broadcast once more with a ttl of 1 and does not reach the controller
  at this hop.
\<close>

lemma receive_ttl_one_rebroadcast:
  "broadcast_log (receive_packet demo_env (demo_packet\<lparr>packet_life_counter := 2\<rparr>) idle)
     = [demo_packet\<lparr>packet_life_counter := 1, position_data := 7\<rparr>]
   \<and> controller_log (receive_packet demo_env (demo_packet\<lparr>packet_life_counter := 2\<rparr>) idle) = []"
  by (simp add: relay_defs idle_def demo_packet_def demo_env_def)



text \<open>
  C3, as the claim words it, fails: the same packet delivered twice to a node is broadcast
  twice, so the state after the second delivery is not the state after the first.
\<close>

theorem redelivery_repeats_forward:
  "receive_packet demo_env demo_packet (receive_packet demo_env demo_packet idle)
     \<noteq> receive_packet demo_env demo_packet idle
   \<and> broadcast_log (receive_packet demo_env demo_packet (receive_packet demo_env demo_packet idle))
     = [demo_packet\<lparr>packet_life_counter := 4, position_data := 7\<rparr>,
        demo_packet\<lparr>packet_life_counter := 4, position_data := 7\<rparr>]"
  by (simp add: relay_defs idle_def demo_packet_def demo_env_def)

text \<open>
  C3, amended. A node records no packet ids: what it does with a received packet depends
  on the packet and on the node's own observation, not on what it has received before.
  For every packet there is one outgoing packet with the same packet id that the node
  broadcasts in every state, or delivers to the controller in every state; so delivering
  a packet a second time repeats the forward, and the state after the second delivery
  differs from the state after the first.
\<close>

theorem receive_stateless:
  "(\<exists>q. packet_id q = packet_id p
        \<and> ((\<forall>t. receive_packet env p t = broadcast_packet q t)
           \<or> (\<forall>t. receive_packet env p t = send_to_controller q t)))
   \<and> receive_packet env p (receive_packet env p s) \<noteq> receive_packet env p s"
proof
  let ?d = "p\<lparr>packet_life_counter := packet_life_counter p - 1\<rparr>"
  show "\<exists>q. packet_id q = packet_id p
        \<and> ((\<forall>t. receive_packet env p t = broadcast_packet q t)
           \<or> (\<forall>t. receive_packet env p t = send_to_controller q t))"
  proof (cases "packet_life_counter p - 1 > 0")
    case True
    let ?q = "if signal_matches env (signal_info p)
              then ?d\<lparr>position_data := update_compressed_position env,
                      signal_strength :=
                        max (signal_strength p) (compress_rssi env (measure_rssi env))\<rparr>
              else ?d"
    from True have "\<forall>t. receive_packet env p t = broadcast_packet ?q t"
      by (simp add: receive_packet_def update_and_forward_packet_def Let_def)
    moreover have "packet_id ?q = packet_id p" by simp
    ultimately show ?thesis by blast
  next
    case False
    then have "\<forall>t. receive_packet env p t = send_to_controller ?d t"
      by (simp add: receive_packet_def Let_def)
    moreover have "packet_id ?d = packet_id p" by simp
    ultimately show ?thesis by blast
  qed
next
  have "length (broadcast_log (receive_packet env p t))
          + length (controller_log (receive_packet env p t))
        = length (broadcast_log t) + length (controller_log t) + 1" for t
    by (simp add: relay_defs Let_def)
  from this [of s] this [of "receive_packet env p s"]
  show "receive_packet env p (receive_packet env p s) \<noteq> receive_packet env p s"
    by auto
qed




lemma receive_packet_broadcasts_positive:
  assumes "\<forall>q \<in> set (broadcast_log s). packet_life_counter q > 0"
  shows "\<forall>q \<in> set (broadcast_log (receive_packet env p s)). packet_life_counter q > 0"
  using assms by (auto simp: relay_defs Let_def)

lemma packet_creation_broadcasts_positive:
  assumes "\<forall>q \<in> set (broadcast_log s). packet_life_counter q > 0"
  shows "\<forall>q \<in> set (broadcast_log (packet_creation env s)). packet_life_counter q > 0"
  using assms by (auto simp: packet_creation_def broadcast_packet_def build_packet_def)

lemma run_node_broadcasts_positive:
  "\<forall>q \<in> set (broadcast_log s). packet_life_counter q > 0 \<Longrightarrow>
   \<forall>q \<in> set (broadcast_log (run_node es s)). packet_life_counter q > 0"
  unfolding run_node_def
proof (induction es arbitrary: s)
  case Nil
  then show ?case by simp
next
  case (Cons e es)
  have "\<forall>q \<in> set (broadcast_log (node_step e s)). packet_life_counter q > 0"
  proof (cases e)
    case (Detection env)
    with Cons.prems packet_creation_broadcasts_positive show ?thesis by simp
  next
    case (Arrival env p)
    with Cons.prems receive_packet_broadcasts_positive show ?thesis by simp
  qed
  from Cons.IH [OF this] show ?case by simp
qed

text \<open>
  C5. A receiving node sends a packet on with a ttl that is the received ttl minus 1, so
  strictly smaller, and it broadcasts the packet only if that ttl is positive; otherwise
  the packet goes to the controller. Hence, whatever detections and packets a node
  handles, starting with nothing sent, no packet it has broadcast has a ttl of 0 or less.
\<close>

theorem ttl_strictly_decreases:
  "(\<exists>q. packet_life_counter q = packet_life_counter p - 1
        \<and> packet_life_counter q < packet_life_counter p
        \<and> (receive_packet env p s = broadcast_packet q s \<and> packet_life_counter q > 0
           \<or> receive_packet env p s = send_to_controller q s \<and> packet_life_counter q \<le> 0))
   \<and> (\<forall>q \<in> set (broadcast_log (run_node es idle)). packet_life_counter q > 0)"
proof
  let ?d = "p\<lparr>packet_life_counter := packet_life_counter p - 1\<rparr>"
  show "\<exists>q. packet_life_counter q = packet_life_counter p - 1
        \<and> packet_life_counter q < packet_life_counter p
        \<and> (receive_packet env p s = broadcast_packet q s \<and> packet_life_counter q > 0
           \<or> receive_packet env p s = send_to_controller q s \<and> packet_life_counter q \<le> 0)"
  proof (cases "packet_life_counter p - 1 > 0")
    case True
    show ?thesis
    proof (cases "signal_matches env (signal_info p)")
      case m: True
      let ?q = "?d\<lparr>position_data := update_compressed_position env,
                     signal_strength :=
                       max (signal_strength p) (compress_rssi env (measure_rssi env))\<rparr>"
      from True m have "receive_packet env p s = broadcast_packet ?q s"
        by (simp add: receive_packet_def update_and_forward_packet_def Let_def)
      with True show ?thesis by (intro exI [of _ ?q]) simp
    next
      case m: False
      from True m have "receive_packet env p s = broadcast_packet ?d s"
        by (simp add: receive_packet_def update_and_forward_packet_def Let_def)
      with True show ?thesis by (intro exI [of _ ?d]) simp
    qed
  next
    case False
    then have "receive_packet env p s = send_to_controller ?d s"
      by (simp add: receive_packet_def Let_def)
    with False show ?thesis by (intro exI [of _ ?d]) simp
  qed
next
  show "\<forall>q \<in> set (broadcast_log (run_node es idle)). packet_life_counter q > 0"
    by (rule run_node_broadcasts_positive) (simp add: idle_def)
qed

text \<open>
  C5, at a node that handles a detection, a packet with a ttl of 5 and a packet with a
  ttl of 1: it broadcasts two packets, with a ttl of 5 and of 4.
\<close>

theorem ttl_strictly_decreases_witness:
  "build_packet demo_env
     \<in> set (broadcast_log (run_node [Detection demo_env, Arrival demo_env demo_packet,
          Arrival demo_env (demo_packet\<lparr>packet_life_counter := 1\<rparr>)] idle))
   \<and> packet_life_counter (build_packet demo_env) > 0
   \<and> demo_packet\<lparr>packet_life_counter := 4, position_data := 7\<rparr>
     \<in> set (broadcast_log (run_node [Detection demo_env, Arrival demo_env demo_packet,
          Arrival demo_env (demo_packet\<lparr>packet_life_counter := 1\<rparr>)] idle))
   \<and> packet_life_counter (demo_packet\<lparr>packet_life_counter := 4, position_data := 7\<rparr>) > 0"
proof -
  have "set (broadcast_log (run_node [Detection demo_env, Arrival demo_env demo_packet,
          Arrival demo_env (demo_packet\<lparr>packet_life_counter := 1\<rparr>)] idle))
     = {build_packet demo_env, demo_packet\<lparr>packet_life_counter := 4, position_data := 7\<rparr>}"
    by (simp add: run_node_def packet_creation_def relay_defs idle_def demo_packet_def
        demo_env_def)
  with ttl_strictly_decreases [of demo_packet demo_env idle
          "[Detection demo_env, Arrival demo_env demo_packet,
            Arrival demo_env (demo_packet\<lparr>packet_life_counter := 1\<rparr>)]"]
  show ?thesis by blast
qed

text \<open>
  C6 at a packet whose observation the node has matched with a stronger one of its own.
  The node changes the ttl, the position and the signal strength, and broadcasts the
  packet with the checksum it arrived with: the checksum is not recomputed, although
  packet creation computes one before it broadcasts.
\<close>

theorem fused_packet_keeps_stale_checksum:
  "broadcast_log (receive_packet demo_env (demo_packet\<lparr>signal_strength := 3\<rparr>) idle)
     = [demo_packet\<lparr>packet_life_counter := 4, position_data := 7, signal_strength := 10\<rparr>]
   \<and> checksum (last (broadcast_log
        (receive_packet demo_env (demo_packet\<lparr>signal_strength := 3\<rparr>) idle)))
     = checksum (demo_packet\<lparr>signal_strength := 3\<rparr>)
   \<and> last (broadcast_log (receive_packet demo_env (demo_packet\<lparr>signal_strength := 3\<rparr>) idle))
     \<noteq> demo_packet\<lparr>signal_strength := 3\<rparr>"
  by (simp add: relay_defs idle_def demo_packet_def demo_env_def)

section \<open>Properties of the packet codec\<close>

lemma length_be_bytes [simp]: "length (be_bytes n v) = n"
  by (induction n arbitrary: v) simp_all

lemma be_bytes_numeral:
  "be_bytes (numeral k) v = be_bytes (pred_numeral k) (v div 256) @ [word_of_int v]"
  by (simp add: numeral_eq_Suc)

lemma fits_div: "fits (Suc n) v \<Longrightarrow> fits n (v div 256)"
  unfolding fits_def by (simp add: pos_imp_zdiv_nonneg_iff) linarith

lemma be_int_snoc: "be_int (bs @ [b]) = be_int bs * 256 + uint b"
  by (simp add: be_int_def)

lemma be_int_be_bytes: "fits n v \<Longrightarrow> be_int (be_bytes n v) = v"
proof (induction n arbitrary: v)
  case 0
  then show ?case by (simp add: fits_def be_int_def)
next
  case (Suc n)
  have "uint (word_of_int v :: byte) = v mod 256"
    by (simp add: uint_word_of_int)
  with Suc.IH [OF fits_div [OF Suc.prems]] show ?case
    by (simp add: be_int_snoc)
qed

lemma take_int_be_bytes:
  "fits n v \<Longrightarrow> take_int n (be_bytes n v @ r) = Inr (v, r)"
  by (simp add: take_int_def be_int_be_bytes)

lemma take_int_be_bytes_end:
  "fits n v \<Longrightarrow> take_int n (be_bytes n v) = Inr (v, [])"
  using take_int_be_bytes [of n v "[]"] by simp

lemma take_bytes_append:
  "length xs = n \<Longrightarrow> take_bytes n (xs @ r) = Inr (xs, r)"
  by (simp add: take_bytes_def)

lemma fits_uint16: "fits 2 (uint (w :: 16 word))"
  using uint_bounded [of w] by (simp add: fits_def)

lemma decode_body_checksum:
  assumes "valid_packet cks p"
  shows "decode cks (body_bytes p @ be_bytes 2 (uint (cks (body_bytes p)))) = Inr p"
proof -
  from assms have f: "protocol_version p = 1" "fits 1 (protocol_version p)" "fits 4 (packet_id p)"
    "fits 2 (source_node_id p)" "fits 2 (dest_node_id p)"
    "fits 8 (timestamp p)" "fits 16 (position_data p)"
    "fits 1 (signal_type p)" "fits 1 (signal_strength p)" "fits 1 (protocol p)"
    "signal_info_length p = int (length (signal_info p))" "fits 1 (int (length (signal_info p)))"
    "strength_over_time_length p = int (length (strength_over_time p))"
    "fits 1 (int (length (strength_over_time p)))"
    "fits 2 (speed_direction p)" "fits 1 (packet_life_counter p)"
    "checksum p = uint (cks (body_bytes p))"
    by (simp_all add: valid_packet_def fits_def)
  have len: "length (body_bytes p @ be_bytes 2 (uint (cks (body_bytes p)))) - 2
             = length (body_bytes p)"
    by simp
  show ?thesis
    unfolding decode_def
    apply (subst (1) body_bytes_def)
    using f
    apply (simp only: append_assoc take_int_be_bytes take_bytes_append and_then.simps prod.case
       fits_uint16 nat_int length_be_bytes refl if_False simp_thms)
    apply (simp add: len take_int_be_bytes_end fits_uint16)
    done
qed

text \<open>
  C7. For every valid packet \<open>p\<close>, decoding the encoding of \<open>p\<close> succeeds and returns
  \<open>p\<close>; the encoding ends with the two bytes of the 16-bit checksum of all the bytes
  before them, and these are the header fields and the length-prefixed variable fields.
\<close>

theorem decode_encode:
  assumes "valid_packet cks p"
  shows "decode cks (encode cks p) = Inr p
    \<and> drop (length (encode cks p) - 2) (encode cks p)
      = be_bytes 2 (uint (cks (take (length (encode cks p) - 2) (encode cks p))))
    \<and> take (length (encode cks p) - 2) (encode cks p) = body_bytes p"
  using decode_body_checksum [OF assms] by (simp add: encode_def)

text \<open>C7 at the sample packet, with the byte sum as the checksum.\<close>

theorem decode_encode_witness:
  "valid_packet sum_checksum demo_packet
   \<and> decode sum_checksum (encode sum_checksum demo_packet) = Inr demo_packet"
proof -
  have v: "valid_packet sum_checksum demo_packet"
    by (simp add: valid_packet_def body_bytes_def demo_packet_def fits_def sum_checksum_def
        be_bytes_numeral)
  from decode_encode [OF v] v show ?thesis by simp
qed

section \<open>Properties of the dashboard\<close>

lemma js_index_last: "xs \<noteq> [] \<Longrightarrow> js_index xs (int (length xs) - 1) = Some (last xs)"
  by (simp add: js_index_def last_conv_nth nat_diff_distrib')

text \<open>
  C9. In both versions of \<open>updateSignalStats\<close>: when the signal list is empty the
  last-signal-time element shows the literal \<open>N/A\<close> and the list is read at no index;
  when it is not empty the element shows the timestamp of the last signal of the list,
  the list is read once, at its length minus 1, this index is within bounds, and no
  \<open>TypeError\<close> is thrown.
\<close>

theorem updateSignalStats_last_time:
  "(data = [] \<longrightarrow>
      updateSignalStats data d
        = Inr (d\<lparr>totalSignals := 0, totalSignalsEl := Number 0, lastSignalTimeEl := Text ''N/A''\<rparr>)
      \<and> updateSignalStats_closure (d\<lparr>signalData := data\<rparr>)
        = Inr (d\<lparr>signalData := data, totalSignalsEl := Number 0, lastSignalTimeEl := Text ''N/A''\<rparr>))
   \<and> (data \<noteq> [] \<longrightarrow>
      updateSignalStats data d
        = Inr (d\<lparr>totalSignals := int (length data), totalSignalsEl := Number (int (length data)),
                 lastSignalTimeEl := Text (SignalData.timestamp (last data)),
                 reads := reads d @ [int (length data) - 1]\<rparr>)
      \<and> updateSignalStats_closure (d\<lparr>signalData := data\<rparr>)
        = Inr (d\<lparr>signalData := data, totalSignalsEl := Number (int (length data)),
                 lastSignalTimeEl := Text (SignalData.timestamp (last data)),
                 reads := reads d @ [int (length data) - 1]\<rparr>)
      \<and> 0 \<le> int (length data) - 1 \<and> int (length data) - 1 < int (length data)
      \<and> js_index data (int (length data) - 1) = Some (last data))"
proof (cases "data = []")
  case True
  then show ?thesis
    by (simp add: updateSignalStats_def updateSignalStats_closure_def)
next
  case False
  then have "0 < length data" by simp
  with False js_index_last [OF False] show ?thesis
    by (simp add: updateSignalStats_def updateSignalStats_closure_def Let_def)
qed

text \<open>C9 at the empty list and at a list of two signals.\<close>

theorem updateSignalStats_last_time_witness:
  "updateSignalStats [] blank_page
     = Inr (blank_page\<lparr>totalSignalsEl := Number 0, lastSignalTimeEl := Text ''N/A''\<rparr>)
   \<and> demo_signals \<noteq> []
   \<and> updateSignalStats demo_signals blank_page
     = Inr (blank_page\<lparr>totalSignals := 2, totalSignalsEl := Number 2,
              lastSignalTimeEl := Text ''2025-02-03 10:00:01'', reads := [1]\<rparr>)
   \<and> updateSignalStats_closure (blank_page\<lparr>signalData := demo_signals\<rparr>)
     = Inr (blank_page\<lparr>signalData := demo_signals, totalSignalsEl := Number 2,
              lastSignalTimeEl := Text ''2025-02-03 10:00:01'', reads := [1]\<rparr>)"
  using updateSignalStats_last_time [of "[]" blank_page]
    updateSignalStats_last_time [of demo_signals blank_page]
  by (simp add: demo_signals_def blank_page_def)

text \<open>
  C10. For every list of signals, each of the three counts the component shows is the
  number of positions of the list whose signal has the type \<open>Bluetooth\<close>, \<open>Wi-Fi\<close> or
  \<open>ADS-B\<close> exactly; when the signal data is undefined, every count is 0.
\<close>

theorem SignalStats_counts:
  "SignalStats None = \<lparr>bluetooth_signals = 0, wifi_signals = 0, adsb_signals = 0\<rparr>
   \<and> bluetooth_signals (SignalStats (Some xs))
     = card {i. i < length xs \<and> type (xs ! i) = ''Bluetooth''}
   \<and> wifi_signals (SignalStats (Some xs))
     = card {i. i < length xs \<and> type (xs ! i) = ''Wi-Fi''}
   \<and> adsb_signals (SignalStats (Some xs))
     = card {i. i < length xs \<and> type (xs ! i) = ''ADS-B''}"
  by (simp add: SignalStats_def js_or_def length_filter_conv_card)

end
